theory Spec2Isabelle
  imports Complex_Main "HOL-Library.AList"
begin

section \<open>Python values used by \<open>scripts/train.py\<close>\<close>

text \<open>
  A Python \<open>float\<close>: a finite value, one of the two infinities, or not-a-number.
  Finite values are carried as reals; rounding and overflow of finite arithmetic are
  not modelled, the special values and the comparison rules are.
\<close>

datatype pyfloat = Fin real | PInf | NInf | NaN

text \<open>\<open>a + b\<close> on floats.\<close>

fun float_add :: "pyfloat \<Rightarrow> pyfloat \<Rightarrow> pyfloat" where
  "float_add (Fin x) (Fin y) = Fin (x + y)"
| "float_add (Fin x) PInf = PInf"
| "float_add (Fin x) NInf = NInf"
| "float_add (Fin x) NaN = NaN"
| "float_add PInf (Fin y) = PInf"
| "float_add PInf PInf = PInf"
| "float_add PInf NInf = NaN"
| "float_add PInf NaN = NaN"
| "float_add NInf (Fin y) = NInf"
| "float_add NInf PInf = NaN"
| "float_add NInf NInf = NInf"
| "float_add NInf NaN = NaN"
| "float_add NaN b = NaN"

text \<open>\<open>a < b\<close> on floats: every comparison with not-a-number is false.\<close>

fun float_lt :: "pyfloat \<Rightarrow> pyfloat \<Rightarrow> bool" where
  "float_lt (Fin x) (Fin y) = (x < y)"
| "float_lt (Fin x) PInf = True"
| "float_lt (Fin x) NInf = False"
| "float_lt (Fin x) NaN = False"
| "float_lt PInf b = False"
| "float_lt NInf (Fin y) = True"
| "float_lt NInf PInf = True"
| "float_lt NInf NInf = False"
| "float_lt NInf NaN = False"
| "float_lt NaN b = False"

datatype error =
    KeyError string
  | AssertionError string
  | ValueError string
  | ZeroDivisionError

text \<open>\<open>a / n\<close> for a float \<open>a\<close> and the integer \<open>n = len(loader)\<close>, which is never negative.\<close>

fun float_div :: "pyfloat \<Rightarrow> nat \<Rightarrow> error + pyfloat" where
  "float_div a 0 = Inl ZeroDivisionError"
| "float_div (Fin x) (Suc n) = Inr (Fin (x / real (Suc n)))"
| "float_div PInf (Suc n) = Inr PInf"
| "float_div NInf (Suc n) = Inr NInf"
| "float_div NaN (Suc n) = Inr NaN"

text \<open>The numbers a configuration file and a result record hold.\<close>

datatype pyval = PyInt int | PyFloat pyfloat

text \<open>
  A \<open>dict\<close> with string keys keeps insertion order; storing under a key that is present
  replaces the value where it stands, storing under a new key appends
  (\<^const>\<open>AList.update\<close>).
\<close>

type_synonym 'v dict = "(string \<times> 'v) list"

type_synonym config = "pyval dict"

definition getitem :: "'v dict \<Rightarrow> string \<Rightarrow> error + 'v" where
  "getitem d k = (case map_of d k of None \<Rightarrow> Inl (KeyError k) | Some v \<Rightarrow> Inr v)"

section \<open>The collaborators imported from \<open>src.utils\<close>, \<open>torch\<close> and \<open>sklearn\<close>\<close>

text \<open>
  \<open>train.py\<close> only calls these; they are parameters of the model. \<open>'m\<close> is the state of
  a network (parameters and mode), \<open>'o\<close> the state of its optimizer, \<open>'i\<close> a batch of
  inputs and \<open>'l\<close> a batch of labels. A data loader is the list of batches one pass over
  it yields, of length \<open>len(loader)\<close>; a shuffle order is an index array or \<open>None\<close>.

  \<^item> \<open>train_step\<close> is one pass of the body of the training loop on one batch:
    \<open>zero_grad\<close>, forward pass, criterion, \<open>backward\<close>, \<open>optimizer.step\<close>, giving the
    new network and optimizer and \<open>loss.item()\<close>;
  \<^item> \<open>eval_loss\<close> is forward pass and criterion under \<open>no_grad\<close>, giving \<open>loss.item()\<close>;
  \<^item> \<open>predict\<close> is forward pass and \<open>torch.max(outputs, 1)\<close>, giving the predicted classes;
  \<^item> \<open>view_flat\<close> is \<open>inputs.view(inputs.size(0), -1)\<close>.
\<close>

type_synonym shuffle_order = "int list option"

record ('m, 'o, 'i, 'l) collaborators =
  load_training_data :: "string \<Rightarrow> pyval \<Rightarrow> pyfloat \<Rightarrow> string option
      \<Rightarrow> ('i \<times> 'l) list \<times> ('i \<times> 'l) list \<times> shuffle_order \<times> shuffle_order"
  load_testing_data :: "string \<Rightarrow> pyval \<Rightarrow> string option \<Rightarrow> shuffle_order \<Rightarrow> shuffle_order
      \<Rightarrow> ('i \<times> 'l) list \<times> shuffle_order \<times> shuffle_order"
  SimpleMLP :: "int \<Rightarrow> pyval \<Rightarrow> pyval \<Rightarrow> pyval \<Rightarrow> 'm"
  SimpleCNN :: "pyval \<Rightarrow> pyval \<Rightarrow> pyval \<Rightarrow> 'm"
  SimpleCNN_3CH :: "pyval \<Rightarrow> pyval \<Rightarrow> pyval \<Rightarrow> 'm"
  Adam :: "'m \<Rightarrow> pyval \<Rightarrow> 'o"
  model_train :: "'m \<Rightarrow> 'm"
  model_eval :: "'m \<Rightarrow> 'm"
  view_flat :: "'i \<Rightarrow> 'i"
  train_step :: "'m \<Rightarrow> 'o \<Rightarrow> 'i \<Rightarrow> 'l \<Rightarrow> 'm \<times> 'o \<times> pyfloat"
  eval_loss :: "'m \<Rightarrow> 'i \<Rightarrow> 'l \<Rightarrow> pyfloat"
  predict :: "'m \<Rightarrow> 'i \<Rightarrow> nat list"
  labels_of :: "'l \<Rightarrow> nat list"
  accuracy_score :: "nat list \<Rightarrow> nat list \<Rightarrow> pyfloat"
  f1_score :: "nat list \<Rightarrow> nat list \<Rightarrow> pyfloat"
  precision_score :: "nat list \<Rightarrow> nat list \<Rightarrow> pyfloat"
  recall_score :: "nat list \<Rightarrow> nat list \<Rightarrow> pyfloat"
  count_params :: "'m \<Rightarrow> int"

section \<open>\<open>train_and_evaluate\<close>\<close>

definition patience :: nat where
  "patience = 5"

text \<open>Lines 28 to 42: both loads, then the comparison of the shuffle orders.\<close>

definition load_and_check ::
  "('m, 'o, 'i, 'l) collaborators \<Rightarrow> config \<Rightarrow> string \<Rightarrow> string option
     \<Rightarrow> error + (('i \<times> 'l) list \<times> ('i \<times> 'l) list \<times> ('i \<times> 'l) list)" where
  "load_and_check env config dataset pcam_data_path =
     (case getitem config ''batch_size'' of Inl e \<Rightarrow> Inl e | Inr batch_size \<Rightarrow>
      (case load_training_data env dataset batch_size (Fin (2 / 10)) pcam_data_path of
         (train_loader, val_loader, shuffle_order_rows1, shuffle_order_columns1) \<Rightarrow>
      (case load_testing_data env dataset batch_size pcam_data_path
              shuffle_order_rows1 shuffle_order_columns1 of
         (test_loader, shuffle_order_rows, shuffle_order_columns) \<Rightarrow>
       if shuffle_order_columns1 \<noteq> None \<and> shuffle_order_columns \<noteq> None
          \<and> shuffle_order_columns1 \<noteq> shuffle_order_columns
       then Inl (AssertionError ''Shuffle order columns do not match!'')
       else if shuffle_order_rows1 \<noteq> None \<and> shuffle_order_rows \<noteq> None
          \<and> shuffle_order_rows1 \<noteq> shuffle_order_rows
       then Inl (AssertionError ''Shuffle order rows do not match!'')
       else Inr (train_loader, val_loader, test_loader))))"

text \<open>Lines 44 to 71: the network for the model type, or \<open>ValueError\<close>.\<close>

definition build_model ::
  "('m, 'o, 'i, 'l) collaborators \<Rightarrow> config \<Rightarrow> string \<Rightarrow> int \<Rightarrow> error + 'm" where
  "build_model env config model_type image_dim =
     (if model_type = ''MLP'' then
        (case getitem config ''fc1_hidden'' of Inl e \<Rightarrow> Inl e | Inr fc1 \<Rightarrow>
         (case getitem config ''fc2_hidden'' of Inl e \<Rightarrow> Inl e | Inr fc2 \<Rightarrow>
          (case getitem config ''fc3_hidden'' of Inl e \<Rightarrow> Inl e | Inr fc3 \<Rightarrow>
             Inr (SimpleMLP env (image_dim * image_dim) fc1 fc2 fc3))))
      else if model_type = ''MLP_3CH'' then
        (case getitem config ''fc1_hidden'' of Inl e \<Rightarrow> Inl e | Inr fc1 \<Rightarrow>
         (case getitem config ''fc2_hidden'' of Inl e \<Rightarrow> Inl e | Inr fc2 \<Rightarrow>
          (case getitem config ''fc3_hidden'' of Inl e \<Rightarrow> Inl e | Inr fc3 \<Rightarrow>
             Inr (SimpleMLP env (3 * image_dim * image_dim) fc1 fc2 fc3))))
      else if model_type = ''CNN'' then
        (case getitem config ''cha_input'' of Inl e \<Rightarrow> Inl e | Inr ci \<Rightarrow>
         (case getitem config ''cha_hidden'' of Inl e \<Rightarrow> Inl e | Inr ch \<Rightarrow>
          (case getitem config ''fc_hidden'' of Inl e \<Rightarrow> Inl e | Inr fc \<Rightarrow>
             Inr (SimpleCNN env ci ch fc))))
      else if model_type = ''CNN_3CH'' then
        (case getitem config ''cha_input'' of Inl e \<Rightarrow> Inl e | Inr ci \<Rightarrow>
         (case getitem config ''cha_hidden'' of Inl e \<Rightarrow> Inl e | Inr ch \<Rightarrow>
          (case getitem config ''fc_hidden'' of Inl e \<Rightarrow> Inl e | Inr fc \<Rightarrow>
             Inr (SimpleCNN_3CH env ci ch fc))))
      else Inl (ValueError ''Invalid model type!''))"

text \<open>\<open>model_type in ["MLP", "MLP_3CH"]\<close>: the input batch is flattened for these only.\<close>

definition prepare_inputs :: "('m, 'o, 'i, 'l) collaborators \<Rightarrow> string \<Rightarrow> 'i \<Rightarrow> 'i" where
  "prepare_inputs env model_type inputs =
     (if model_type \<in> set [''MLP'', ''MLP_3CH''] then view_flat env inputs else inputs)"

text \<open>
  Lines 84 to 92: the loop over the training batches, threading the network, the
  optimizer and \<open>epoch_train_loss\<close>.
\<close>

fun train_batches ::
  "('m, 'o, 'i, 'l) collaborators \<Rightarrow> string \<Rightarrow> ('i \<times> 'l) list
     \<Rightarrow> 'm \<times> 'o \<times> pyfloat \<Rightarrow> 'm \<times> 'o \<times> pyfloat" where
  "train_batches env model_type [] s = s"
| "train_batches env model_type ((inputs, labels) # rest) (m, opt, epoch_train_loss) =
     (case train_step env m opt (prepare_inputs env model_type inputs) labels of
        (m', opt', loss) \<Rightarrow>
          train_batches env model_type rest (m', opt', float_add epoch_train_loss loss))"

text \<open>Lines 99 to 104: the loop over the validation batches, summing \<open>epoch_val_loss\<close>.\<close>

fun val_batches ::
  "('m, 'o, 'i, 'l) collaborators \<Rightarrow> string \<Rightarrow> 'm \<Rightarrow> ('i \<times> 'l) list \<Rightarrow> pyfloat \<Rightarrow> pyfloat" where
  "val_batches env model_type m [] epoch_val_loss = epoch_val_loss"
| "val_batches env model_type m ((inputs, labels) # rest) epoch_val_loss =
     val_batches env model_type m rest
       (float_add epoch_val_loss (eval_loss env m (prepare_inputs env model_type inputs) labels))"

text \<open>The variables the epoch loop updates.\<close>

record ('m, 'o) loop_state =
  model :: 'm
  optimizer :: 'o
  train_losses :: "pyfloat list"
  val_losses :: "pyfloat list"
  best_val_loss :: pyfloat
  epochs_without_improvement :: nat

text \<open>
  Lines 81 to 115: one pass of the body of the epoch loop. The flag returned with the
  state says whether the body left the loop by \<open>break\<close>.
\<close>

definition run_epoch ::
  "('m, 'o, 'i, 'l) collaborators \<Rightarrow> string \<Rightarrow> ('i \<times> 'l) list \<Rightarrow> ('i \<times> 'l) list
     \<Rightarrow> ('m, 'o) loop_state \<Rightarrow> error + (('m, 'o) loop_state \<times> bool)" where
  "run_epoch env model_type train_loader val_loader st =
     (case train_batches env model_type train_loader
             (model_train env (model st), optimizer st, Fin 0) of
        (m1, opt1, epoch_train_loss) \<Rightarrow>
      (case float_div epoch_train_loss (length train_loader) of Inl e \<Rightarrow> Inl e
       | Inr train_mean \<Rightarrow>
      (let m2 = model_eval env m1;
           epoch_val_loss = val_batches env model_type m2 val_loader (Fin 0)
       in case float_div epoch_val_loss (length val_loader) of Inl e \<Rightarrow> Inl e
          | Inr val_mean \<Rightarrow>
         (let st1 = st\<lparr>model := m2, optimizer := opt1,
                       train_losses := train_losses st @ [train_mean],
                       val_losses := val_losses st @ [val_mean]\<rparr>
          in if float_lt epoch_val_loss (best_val_loss st)
             then Inr (st1\<lparr>best_val_loss := epoch_val_loss,
                           epochs_without_improvement := 0\<rparr>, False)
             else Inr (st1\<lparr>epochs_without_improvement := epochs_without_improvement st + 1\<rparr>,
                       epochs_without_improvement st + 1 \<ge> patience)))))"

text \<open>
  \<open>for epoch in range(25)\<close>: the first argument counts the epochs still to run, so the
  loop starts at 25.
\<close>

fun epoch_loop ::
  "nat \<Rightarrow> ('m, 'o, 'i, 'l) collaborators \<Rightarrow> string \<Rightarrow> ('i \<times> 'l) list \<Rightarrow> ('i \<times> 'l) list
     \<Rightarrow> ('m, 'o) loop_state \<Rightarrow> error + ('m, 'o) loop_state" where
  "epoch_loop 0 env model_type train_loader val_loader st = Inr st"
| "epoch_loop (Suc n) env model_type train_loader val_loader st =
     (case run_epoch env model_type train_loader val_loader st of
        Inl e \<Rightarrow> Inl e
      | Inr (st', stop) \<Rightarrow>
          if stop then Inr st' else epoch_loop n env model_type train_loader val_loader st')"

text \<open>Lines 122 to 128: the loop over the test batches, extending both lists.\<close>

fun test_batches ::
  "('m, 'o, 'i, 'l) collaborators \<Rightarrow> string \<Rightarrow> 'm \<Rightarrow> ('i \<times> 'l) list
     \<Rightarrow> nat list \<times> nat list \<Rightarrow> nat list \<times> nat list" where
  "test_batches env model_type m [] acc = acc"
| "test_batches env model_type m ((inputs, labels) # rest) (all_labels, all_preds) =
     test_batches env model_type m rest
       (all_labels @ labels_of env labels,
        all_preds @ predict env m (prepare_inputs env model_type inputs))"

text \<open>What \<open>train_and_evaluate\<close> returns, in the order of its \<open>return\<close>.\<close>

type_synonym outcome =
  "pyfloat list \<times> pyfloat list \<times> pyfloat \<times> pyfloat \<times> pyfloat \<times> pyfloat \<times> int"

text \<open>Lines 117 to 138: the test phase and the metrics, from the state the loop left.\<close>

definition evaluate ::
  "('m, 'o, 'i, 'l) collaborators \<Rightarrow> string \<Rightarrow> ('i \<times> 'l) list \<Rightarrow> ('m, 'o) loop_state
     \<Rightarrow> outcome" where
  "evaluate env model_type test_loader st =
     (let m = model_eval env (model st)
      in case test_batches env model_type m test_loader ([], []) of
           (all_labels, all_preds) \<Rightarrow>
             (train_losses st, val_losses st,
              accuracy_score env all_labels all_preds,
              f1_score env all_labels all_preds,
              precision_score env all_labels all_preds,
              recall_score env all_labels all_preds,
              count_params env m))"

text \<open>Lines 73 to 78: the state the epoch loop starts from.\<close>

definition initial_state :: "'m \<Rightarrow> 'o \<Rightarrow> ('m, 'o) loop_state" where
  "initial_state m opt =
     \<lparr>model = m, optimizer = opt, train_losses = [], val_losses = [],
      best_val_loss = PInf, epochs_without_improvement = 0\<rparr>"

text \<open>Lines 23 to 115: everything up to the end of the epoch loop.\<close>

definition training_phase ::
  "('m, 'o, 'i, 'l) collaborators \<Rightarrow> config \<Rightarrow> string \<Rightarrow> string \<Rightarrow> int \<Rightarrow> string option
     \<Rightarrow> error + (('i \<times> 'l) list \<times> ('m, 'o) loop_state)" where
  "training_phase env config model_type dataset image_dim pcam_data_path =
     (case load_and_check env config dataset pcam_data_path of Inl e \<Rightarrow> Inl e
      | Inr (train_loader, val_loader, test_loader) \<Rightarrow>
     (case build_model env config model_type image_dim of Inl e \<Rightarrow> Inl e
      | Inr m \<Rightarrow>
     (case getitem config ''learning_rate'' of Inl e \<Rightarrow> Inl e
      | Inr lr \<Rightarrow>
     (case epoch_loop 25 env model_type train_loader val_loader
             (initial_state m (Adam env m lr)) of Inl e \<Rightarrow> Inl e
      | Inr st \<Rightarrow> Inr (test_loader, st)))))"

definition train_and_evaluate ::
  "('m, 'o, 'i, 'l) collaborators \<Rightarrow> config \<Rightarrow> string \<Rightarrow> string \<Rightarrow> int \<Rightarrow> string option
     \<Rightarrow> error + outcome" where
  "train_and_evaluate env config model_type dataset image_dim pcam_data_path =
     (case training_phase env config model_type dataset image_dim pcam_data_path of
        Inl e \<Rightarrow> Inl e
      | Inr (test_loader, st) \<Rightarrow> Inr (evaluate env model_type test_loader st))"

section \<open>The course of a run\<close>

text \<open>
  The epoch loop changes the network and the optimizer in the training phase only, so
  their states follow one course whatever the early-stopping test decides: one epoch
  takes the pair through \<open>model.train()\<close>, all training batches and \<open>model.eval()\<close>.
\<close>

definition epoch_step ::
  "('m, 'o, 'i, 'l) collaborators \<Rightarrow> string \<Rightarrow> ('i \<times> 'l) list \<Rightarrow> 'm \<times> 'o \<Rightarrow> 'm \<times> 'o" where
  "epoch_step env model_type train_loader s =
     (case train_batches env model_type train_loader (model_train env (fst s), snd s, Fin 0) of
        (m1, opt1, loss_sum) \<Rightarrow> (model_eval env m1, opt1))"

text \<open>The value of \<open>epoch_train_loss\<close> when the training batches of one epoch are done.\<close>

definition epoch_train_total ::
  "('m, 'o, 'i, 'l) collaborators \<Rightarrow> string \<Rightarrow> ('i \<times> 'l) list \<Rightarrow> 'm \<times> 'o \<Rightarrow> pyfloat" where
  "epoch_train_total env model_type train_loader s =
     (case train_batches env model_type train_loader (model_train env (fst s), snd s, Fin 0) of
        (m1, opt1, loss_sum) \<Rightarrow> loss_sum)"

text \<open>Network and optimizer after \<open>k\<close> epochs.\<close>

primrec state_after ::
  "nat \<Rightarrow> ('m, 'o, 'i, 'l) collaborators \<Rightarrow> string \<Rightarrow> ('i \<times> 'l) list \<Rightarrow> 'm \<times> 'o \<Rightarrow> 'm \<times> 'o" where
  "state_after 0 env model_type train_loader s = s"
| "state_after (Suc k) env model_type train_loader s =
     epoch_step env model_type train_loader (state_after k env model_type train_loader s)"

text \<open>
  The cumulative training loss and the cumulative validation loss of epoch \<open>j + 1\<close>
  (epochs are counted from 1, as the message of line 114 does; \<open>j\<close> is the loop variable).
\<close>

definition train_total ::
  "('m, 'o, 'i, 'l) collaborators \<Rightarrow> string \<Rightarrow> ('i \<times> 'l) list \<Rightarrow> 'm \<times> 'o \<Rightarrow> nat \<Rightarrow> pyfloat" where
  "train_total env model_type train_loader s j =
     epoch_train_total env model_type train_loader (state_after j env model_type train_loader s)"

definition val_total ::
  "('m, 'o, 'i, 'l) collaborators \<Rightarrow> string \<Rightarrow> ('i \<times> 'l) list \<Rightarrow> ('i \<times> 'l) list \<Rightarrow> 'm \<times> 'o
     \<Rightarrow> nat \<Rightarrow> pyfloat" where
  "val_total env model_type train_loader val_loader s j =
     val_batches env model_type (fst (state_after (Suc j) env model_type train_loader s))
       val_loader (Fin 0)"

section \<open>The early-stopping rule of the specification\<close>

text \<open>
  For a sequence \<open>f\<close> of cumulative validation losses, \<open>f j\<close> that of epoch \<open>j + 1\<close>:
  the best loss starts at plus infinity and the strike counter at 0; an epoch whose loss
  is strictly below the best loss replaces it and resets the counter, any other epoch
  adds one strike.
\<close>

primrec best_after :: "(nat \<Rightarrow> pyfloat) \<Rightarrow> nat \<Rightarrow> pyfloat" where
  "best_after f 0 = PInf"
| "best_after f (Suc j) = (if float_lt (f j) (best_after f j) then f j else best_after f j)"

primrec strikes_after :: "(nat \<Rightarrow> pyfloat) \<Rightarrow> nat \<Rightarrow> nat" where
  "strikes_after f 0 = 0"
| "strikes_after f (Suc j) =
     (if float_lt (f j) (best_after f j) then 0 else Suc (strikes_after f j))"

text \<open>Epoch \<open>j + 1\<close> does not strictly improve the best loss seen before it.\<close>

definition fails_to_improve :: "(nat \<Rightarrow> pyfloat) \<Rightarrow> nat \<Rightarrow> bool" where
  "fails_to_improve f j = (\<not> float_lt (f j) (best_after f j))"

text \<open>The five epochs up to epoch \<open>e\<close> all fail to improve.\<close>

definition five_failures :: "(nat \<Rightarrow> pyfloat) \<Rightarrow> nat \<Rightarrow> bool" where
  "five_failures f e = (5 \<le> e \<and> (\<forall>j \<in> {e - 5..<e}. fails_to_improve f j))"

text \<open>
  The loop state that \<open>j\<close> epochs without a \<open>break\<close> lead to, from the network and
  optimizer \<open>s0\<close>.
\<close>

definition at_epoch ::
  "('m, 'o, 'i, 'l) collaborators \<Rightarrow> string \<Rightarrow> ('i \<times> 'l) list \<Rightarrow> ('i \<times> 'l) list \<Rightarrow> 'm \<times> 'o
     \<Rightarrow> nat \<Rightarrow> ('m, 'o) loop_state \<Rightarrow> bool" where
  "at_epoch env model_type train_loader val_loader s0 j st =
     ((model st, optimizer st) = state_after j env model_type train_loader s0
      \<and> best_val_loss st = best_after (val_total env model_type train_loader val_loader s0) j
      \<and> epochs_without_improvement st
           = strikes_after (val_total env model_type train_loader val_loader s0) j
      \<and> map Inr (train_losses st)
           = map (\<lambda>i. float_div (train_total env model_type train_loader s0 i) (length train_loader))
               [0..<j]
      \<and> map Inr (val_losses st)
           = map (\<lambda>i. float_div (val_total env model_type train_loader val_loader s0 i)
                        (length val_loader)) [0..<j])"

text \<open>A float that is neither an infinity nor not-a-number.\<close>

fun is_finite :: "pyfloat \<Rightarrow> bool" where
  "is_finite (Fin x) = True"
| "is_finite PInf = False"
| "is_finite NInf = False"
| "is_finite NaN = False"

text \<open>
  The synthetic sequence of the specification, 10, 9, 9, 9, 9, 9, 5 for epochs 1 to 7,
  continued with 5 for every later epoch.
\<close>

definition synthetic :: "nat \<Rightarrow> pyfloat" where
  "synthetic j = (if j < 7 then Fin ([10, 9, 9, 9, 9, 9, 5] ! j) else Fin 5)"

section \<open>The losses of the batches of one epoch\<close>

text \<open>
  The values \<open>loss.item()\<close> of the training batches of one epoch, in order, from the
  network and optimizer the epoch starts with; those of the validation batches, for the
  network the validation phase runs on; and the sum as the loops build it, from 0.0,
  one batch after the other.
\<close>

fun train_batch_losses ::
  "('m, 'o, 'i, 'l) collaborators \<Rightarrow> string \<Rightarrow> ('i \<times> 'l) list \<Rightarrow> 'm \<times> 'o \<Rightarrow> pyfloat list" where
  "train_batch_losses env model_type [] s = []"
| "train_batch_losses env model_type ((inputs, labels) # rest) (m, opt) =
     (case train_step env m opt (prepare_inputs env model_type inputs) labels of
        (m', opt', loss) \<Rightarrow> loss # train_batch_losses env model_type rest (m', opt'))"

definition val_batch_losses ::
  "('m, 'o, 'i, 'l) collaborators \<Rightarrow> string \<Rightarrow> 'm \<Rightarrow> ('i \<times> 'l) list \<Rightarrow> pyfloat list" where
  "val_batch_losses env model_type m val_loader =
     map (\<lambda>(inputs, labels). eval_loss env m (prepare_inputs env model_type inputs) labels)
       val_loader"

definition float_sum :: "pyfloat list \<Rightarrow> pyfloat" where
  "float_sum xs = foldl float_add (Fin 0) xs"

section \<open>\<open>main_train\<close>\<close>

text \<open>\<open>str(idx)\<close> for the index of a configuration: its decimal digits.\<close>

fun str_nat :: "nat \<Rightarrow> string" where
  "str_nat n =
     (if n < 10 then [char_of (48 + n)] else str_nat (n div 10) @ [char_of (48 + n mod 10)])"

declare str_nat.simps [simp del]














section \<open>What the loop over the configurations leaves\<close>





section \<open>A small instance\<close>

text \<open>
  Collaborators simple enough to run: the network is the number of training steps taken,
  each loader yields one batch, every training batch has loss 1, the validation loss is a
  given function of the network, and the accuracy reported is the sum of the predictions,
  which are the network itself. The four shuffle orders are given.
\<close>

definition demo ::
  "shuffle_order \<Rightarrow> shuffle_order \<Rightarrow> shuffle_order \<Rightarrow> shuffle_order \<Rightarrow> (nat \<Rightarrow> pyfloat)
     \<Rightarrow> (nat, unit, nat, nat) collaborators" where
  "demo rows1 cols1 rows cols f =
     \<lparr>load_training_data = (\<lambda>dataset batch_size val_split path. ([(0, 0)], [(0, 0)], rows1, cols1)),
      load_testing_data = (\<lambda>dataset batch_size path r c. ([(0, 0)], rows, cols)),
      SimpleMLP = (\<lambda>input_dim fc1 fc2 fc3. 0),
      SimpleCNN = (\<lambda>ci ch fc. 0),
      SimpleCNN_3CH = (\<lambda>ci ch fc. 0),
      Adam = (\<lambda>m lr. ()),
      model_train = (\<lambda>m. m),
      model_eval = (\<lambda>m. m),
      view_flat = (\<lambda>i. i),
      train_step = (\<lambda>m opt i l. (Suc m, opt, Fin 1)),
      eval_loss = (\<lambda>m i l. f m),
      predict = (\<lambda>m i. [m]),
      labels_of = (\<lambda>l. [l]),
      accuracy_score = (\<lambda>ls ps. Fin (real (sum_list ps))),
      f1_score = (\<lambda>ls ps. Fin 0),
      precision_score = (\<lambda>ls ps. Fin 0),
      recall_score = (\<lambda>ls ps. Fin 0),
      count_params = (\<lambda>m. 7)\<rparr>"

definition demo_config :: config where
  "demo_config = [(''batch_size'', PyInt 32), (''learning_rate'', PyFloat (Fin (1 / 1000))),
     (''fc1_hidden'', PyInt 8), (''fc2_hidden'', PyInt 8), (''fc3_hidden'', PyInt 8)]"

section \<open>The epoch loop follows the course of the run\<close>

lemma run_epoch_Inr:
  assumes "run_epoch env mt trl vll st = Inr (st', stop)"
  defines "s \<equiv> (model st, optimizer st)"
  defines "V \<equiv> val_batches env mt (fst (epoch_step env mt trl s)) vll (Fin 0)"
  shows "(model st', optimizer st') = epoch_step env mt trl s"
    and "map Inr (train_losses st')
           = map Inr (train_losses st) @ [float_div (epoch_train_total env mt trl s) (length trl)]"
    and "map Inr (val_losses st') = map Inr (val_losses st) @ [float_div V (length vll)]"
    and "best_val_loss st' = (if float_lt V (best_val_loss st) then V else best_val_loss st)"
    and "epochs_without_improvement st'
           = (if float_lt V (best_val_loss st) then 0 else Suc (epochs_without_improvement st))"
    and "stop = (\<not> float_lt V (best_val_loss st) \<and> patience \<le> Suc (epochs_without_improvement st))"
  using assms(1) unfolding s_def V_def run_epoch_def epoch_step_def epoch_train_total_def
  by (auto simp add: Let_def split: prod.splits sum.splits if_splits)

lemma at_epoch_initial:
  "at_epoch env mt trl vll (m, opt) 0 (initial_state m opt)"
  by (simp add: at_epoch_def initial_state_def)

lemma at_epoch_step:
  assumes "at_epoch env mt trl vll s0 j st"
    and "run_epoch env mt trl vll st = Inr (st', stop)"
  shows "at_epoch env mt trl vll s0 (Suc j) st'"
    and "stop = (patience \<le> strikes_after (val_total env mt trl vll s0) (Suc j))"
proof -
  note r = run_epoch_Inr [OF assms(2)]
  have s: "(model st, optimizer st) = state_after j env mt trl s0"
    using assms(1) by (simp add: at_epoch_def)
  have V: "val_batches env mt (fst (epoch_step env mt trl (model st, optimizer st))) vll (Fin 0)
             = val_total env mt trl vll s0 j"
    by (simp add: val_total_def s)
  have T: "epoch_train_total env mt trl (model st, optimizer st) = train_total env mt trl s0 j"
    by (simp add: train_total_def s)
  show "at_epoch env mt trl vll s0 (Suc j) st'"
    using assms(1) r(1-5) unfolding V T
    by (simp add: at_epoch_def s)
  show "stop = (patience \<le> strikes_after (val_total env mt trl vll s0) (Suc j))"
    using assms(1) r(6) unfolding V
    by (auto simp add: at_epoch_def patience_def)
qed

lemma epoch_loop_at_epoch:
  assumes "epoch_loop n env mt trl vll st = Inr st'"
    and "at_epoch env mt trl vll s0 j st"
  shows "\<exists>k. at_epoch env mt trl vll s0 k st' \<and> j \<le> k \<and> k \<le> j + n
           \<and> (\<forall>e. j < e \<and> e < k \<longrightarrow> strikes_after (val_total env mt trl vll s0) e < patience)
           \<and> (k < j + n \<longrightarrow> j < k \<and> patience \<le> strikes_after (val_total env mt trl vll s0) k)"
  using assms
proof (induction n arbitrary: st j)
  case 0
  then show ?case by auto
next
  case (Suc n)
  from Suc.prems(1) obtain st1 stop where
    r: "run_epoch env mt trl vll st = Inr (st1, stop)"
    and rest: "(if stop then Inr st1 else epoch_loop n env mt trl vll st1) = Inr st'"
    by (auto split: sum.splits)
  note step = at_epoch_step [OF Suc.prems(2) r]
  show ?case
  proof (cases stop)
    case True
    with rest have "st' = st1" by simp
    with step True show ?thesis
      by (intro exI [of _ "Suc j"]) auto
  next
    case False
    with rest have "epoch_loop n env mt trl vll st1 = Inr st'" by simp
    from Suc.IH [OF this step(1)] obtain k where
      k: "at_epoch env mt trl vll s0 k st'" "Suc j \<le> k" "k \<le> Suc j + n"
        "\<forall>e. Suc j < e \<and> e < k \<longrightarrow> strikes_after (val_total env mt trl vll s0) e < patience"
        "k < Suc j + n \<longrightarrow> Suc j < k \<and> patience \<le> strikes_after (val_total env mt trl vll s0) k"
      by blast
    have "strikes_after (val_total env mt trl vll s0) (Suc j) < patience"
      using step(2) False by simp
    with k show ?thesis
      apply (intro exI [of _ k])
      apply (intro conjI)
          apply assumption
         apply simp
        apply simp
       apply (metis Suc_lessI)
      apply auto
      done
  qed
qed

lemma strikes_after_ge:
  "(n \<le> strikes_after f e) = (n \<le> e \<and> (\<forall>j \<in> {e - n..<e}. fails_to_improve f j))"
proof (induction e arbitrary: n)
  case 0
  then show ?case by simp
next
  case (Suc e)
  show ?case
  proof (cases n)
    case 0
    then show ?thesis by simp
  next
    case (Suc n')
    show ?thesis
    proof (cases "float_lt (f e) (best_after f e)")
      case True
      then show ?thesis
        using Suc by (auto simp add: fails_to_improve_def)
    next
      case False
      have "{Suc e - Suc n'..<Suc e} = insert e {e - n'..<e}"
        by auto
      with False Suc Suc.IH [of n'] show ?thesis
        by (auto simp add: fails_to_improve_def)
    qed
  qed
qed


section \<open>Properties of \<open>train_and_evaluate\<close>\<close>

text \<open>
  C5: a model type outside MLP, MLP_3CH, CNN and CNN_3CH makes \<open>train_and_evaluate\<close> raise:
  the error of the loading step if that fails, \<open>ValueError\<close> otherwise. The result does
  not depend on any training, validation or test step, and it is never a return value, so no
  loss history and no metrics exist for the configuration.
\<close>

theorem invalid_model_type_aborts:
  assumes "model_type \<notin> {''MLP'', ''MLP_3CH'', ''CNN'', ''CNN_3CH''}"
  shows "train_and_evaluate env config model_type dataset image_dim pcam_data_path =
           (case load_and_check env config dataset pcam_data_path of
              Inl e \<Rightarrow> Inl e
            | Inr loaders \<Rightarrow> Inl (ValueError ''Invalid model type!''))
         \<and> (\<forall>r. train_and_evaluate env config model_type dataset image_dim pcam_data_path \<noteq> Inr r)"
proof -
  have b: "build_model env config model_type image_dim = Inl (ValueError ''Invalid model type!'')"
    using assms by (simp add: build_model_def)
  have eq: "train_and_evaluate env config model_type dataset image_dim pcam_data_path =
           (case load_and_check env config dataset pcam_data_path of
              Inl e \<Rightarrow> Inl e
            | Inr loaders \<Rightarrow> Inl (ValueError ''Invalid model type!''))"
    by (simp add: train_and_evaluate_def training_phase_def b split: sum.splits prod.splits)
  show ?thesis
    unfolding eq by (simp split: sum.splits)
qed

theorem invalid_model_type_aborts_witness:
  "train_and_evaluate (demo None None None None (\<lambda>m. Fin 3)) demo_config ''RNN'' ''MNIST'' 28 None
     = Inl (ValueError ''Invalid model type!'')"
proof -
  have h: "''RNN'' \<notin> {''MLP'', ''MLP_3CH'', ''CNN'', ''CNN_3CH''}"
    by simp
  have l: "load_and_check (demo None None None None (\<lambda>m. Fin 3)) demo_config ''MNIST'' None
             = Inr ([(0, 0)], [(0, 0)], [(0, 0)])"
    by code_simp
  show ?thesis
    using invalid_model_type_aborts [OF h, of "demo None None None None (\<lambda>m. Fin 3)" demo_config "''MNIST''" 28 None]
    by (simp add: l)
qed

text \<open>
  C3, as the code has it: when both loads return a column order (both not \<open>None\<close>) and
  the two differ, or both return a row order and the two differ, \<open>train_and_evaluate\<close>
  raises \<open>AssertionError\<close>, whatever the model type and before any network is built. An
  order that is \<open>None\<close> on one side only is not compared (lines 39 and 41).
\<close>

theorem shuffle_mismatch_aborts:
  assumes "getitem config ''batch_size'' = Inr batch_size"
    and "load_training_data env dataset batch_size (Fin (2 / 10)) pcam_data_path
           = (train_loader, val_loader, rows1, cols1)"
    and "load_testing_data env dataset batch_size pcam_data_path rows1 cols1
           = (test_loader, rows, cols)"
    and "(cols1 \<noteq> None \<and> cols \<noteq> None \<and> cols1 \<noteq> cols)
         \<or> (rows1 \<noteq> None \<and> rows \<noteq> None \<and> rows1 \<noteq> rows)"
  shows "train_and_evaluate env config model_type dataset image_dim pcam_data_path
           = Inl (AssertionError (if cols1 \<noteq> None \<and> cols \<noteq> None \<and> cols1 \<noteq> cols
                                  then ''Shuffle order columns do not match!''
                                  else ''Shuffle order rows do not match!''))"
  using assms
  by (auto simp add: train_and_evaluate_def training_phase_def load_and_check_def)

theorem shuffle_mismatch_aborts_witness:
  "train_and_evaluate (demo (Some [1, 0]) None (Some [0, 1]) None (\<lambda>m. Fin 3))
      demo_config ''MLP'' ''MNISTshuffled'' 28 None
     = Inl (AssertionError ''Shuffle order rows do not match!'')"
  using shuffle_mismatch_aborts [of demo_config "PyInt 32"
      "demo (Some [1, 0]) None (Some [0, 1]) None (\<lambda>m. Fin 3)" "''MNISTshuffled''" None
      "[(0, 0)]" "[(0, 0)]" "Some [1, 0]" None "[(0, 0)]" "Some [0, 1]" None "''MLP''" 28]
  by (simp add: getitem_def demo_config_def demo_def)

text \<open>
  The training load returns no shuffle order and the test load returns one: the orders
  differ, and the run trains, tests and returns.
\<close>

theorem shuffle_one_sided_counterexample:
  "load_training_data (demo None None (Some [1, 0]) (Some [1, 0]) (\<lambda>m. Fin 3))
       ''MNISTshuffled'' (PyInt 32) (Fin (2 / 10)) None
     = ([(0, 0)], [(0, 0)], None, None)
   \<and> load_testing_data (demo None None (Some [1, 0]) (Some [1, 0]) (\<lambda>m. Fin 3))
       ''MNISTshuffled'' (PyInt 32) None None None
     = ([(0, 0)], Some [1, 0], Some [1, 0])
   \<and> train_and_evaluate (demo None None (Some [1, 0]) (Some [1, 0]) (\<lambda>m. Fin 3))
       demo_config ''MLP'' ''MNISTshuffled'' 28 None
     = Inr ([Fin 1, Fin 1, Fin 1, Fin 1, Fin 1, Fin 1],
            [Fin 3, Fin 3, Fin 3, Fin 3, Fin 3, Fin 3], Fin 6, Fin 0, Fin 0, Fin 0, 7)"
  by code_simp

lemma strikes_after_Suc_le: "strikes_after f (Suc j) \<le> Suc (strikes_after f j)"
  by simp

lemma at_epoch_lengths:
  assumes "at_epoch env mt trl vll s0 k st"
  shows "length (train_losses st) = k" and "length (val_losses st) = k"
proof -
  have "length (map (Inr :: pyfloat \<Rightarrow> error + pyfloat) (train_losses st)) = k"
    using assms unfolding at_epoch_def by (metis length_map length_upt minus_nat.diff_0)
  then show "length (train_losses st) = k" by simp
  have "length (map (Inr :: pyfloat \<Rightarrow> error + pyfloat) (val_losses st)) = k"
    using assms unfolding at_epoch_def by (metis length_map length_upt minus_nat.diff_0)
  then show "length (val_losses st) = k" by simp
qed

lemma epoch_loop_result:
  assumes "epoch_loop 25 env mt trl vll (initial_state m opt) = Inr st"
  defines "k \<equiv> length (val_losses st)"
  shows "at_epoch env mt trl vll (m, opt) k st"
    and "0 < k" and "k \<le> 25"
    and "\<forall>e<k. strikes_after (val_total env mt trl vll (m, opt)) e < patience"
    and "k < 25 \<longrightarrow> strikes_after (val_total env mt trl vll (m, opt)) k = patience"
proof -
  from epoch_loop_at_epoch [OF assms(1) at_epoch_initial] obtain k' where
    k': "at_epoch env mt trl vll (m, opt) k' st" "k' \<le> 25"
      "\<forall>e. 0 < e \<and> e < k' \<longrightarrow> strikes_after (val_total env mt trl vll (m, opt)) e < patience"
      "k' < 25 \<longrightarrow> 0 < k' \<and> patience \<le> strikes_after (val_total env mt trl vll (m, opt)) k'"
    by auto
  have kk: "k' = k"
    using at_epoch_lengths(2) [OF k'(1)] by (simp add: k_def)
  show "at_epoch env mt trl vll (m, opt) k st"
    using k'(1) kk by simp
  show "0 < k" using k'(4) kk by auto
  show "k \<le> 25" using k'(2) kk by simp
  show all: "\<forall>e<k. strikes_after (val_total env mt trl vll (m, opt)) e < patience"
  proof (intro allI impI)
    fix e assume "e < k"
    show "strikes_after (val_total env mt trl vll (m, opt)) e < patience"
    proof (cases e)
      case 0
      then show ?thesis by (simp add: patience_def)
    next
      case (Suc e')
      with \<open>e < k\<close> k'(3) kk show ?thesis by (simp del: strikes_after.simps)
    qed
  qed
  show "k < 25 \<longrightarrow> strikes_after (val_total env mt trl vll (m, opt)) k = patience"
  proof
    assume lt: "k < 25"
    with k'(4) kk have ge: "patience \<le> strikes_after (val_total env mt trl vll (m, opt)) k"
      and pos: "0 < k" by auto
    from pos obtain j where j: "k = Suc j" by (cases k) auto
    with all have "strikes_after (val_total env mt trl vll (m, opt)) j < patience" by simp
    with strikes_after_Suc_le [of "val_total env mt trl vll (m, opt)" j] ge j
    show "strikes_after (val_total env mt trl vll (m, opt)) k = patience"
      by (simp del: strikes_after.simps)
  qed
qed

text \<open>
  C1: the epoch loop of \<open>train_and_evaluate\<close> follows the early-stopping rule. It starts
  with the best loss at plus infinity and the counter at 0. When it ends after \<open>k\<close> epochs,
  the best loss and the counter are those of the rule after \<open>k\<close> cumulative validation
  losses; the counter stayed below 5 after every earlier epoch; the loop ends before epoch 25
  only with the counter at 5; and both histories hold \<open>k\<close> entries, the last epoch's
  included.
\<close>

theorem early_stopping_algorithm:
  assumes "epoch_loop 25 env mt trl vll (initial_state m opt) = Inr st"
  defines "f \<equiv> val_total env mt trl vll (m, opt)"
  defines "k \<equiv> length (val_losses st)"
  shows "best_val_loss (initial_state m opt) = PInf
       \<and> epochs_without_improvement (initial_state m opt) = 0
       \<and> best_val_loss st = best_after f k
       \<and> epochs_without_improvement st = strikes_after f k
       \<and> (\<forall>e<k. strikes_after f e < 5)
       \<and> (k < 25 \<longrightarrow> strikes_after f k = 5)
       \<and> 0 < k \<and> k \<le> 25
       \<and> length (train_losses st) = k"
proof -
  note r = epoch_loop_result [OF assms(1)]
  show ?thesis
    using r(2-5) at_epoch_lengths(1) [OF r(1)] r(1)
    unfolding f_def k_def
    by (simp add: initial_state_def at_epoch_def patience_def)
qed

lemma train_batches_losses:
  "(case train_batches env mt bs (m, opt, acc) of (m1, opt1, loss_sum) \<Rightarrow> loss_sum)
     = foldl float_add acc (train_batch_losses env mt bs (m, opt))"
proof (induction bs arbitrary: m opt acc)
  case Nil
  then show ?case by simp
next
  case (Cons b bs)
  obtain inputs labels where b: "b = (inputs, labels)" by (cases b)
  obtain m' opt' loss where
    t: "train_step env m opt (prepare_inputs env mt inputs) labels = (m', opt', loss)"
    by (cases "train_step env m opt (prepare_inputs env mt inputs) labels")
  show ?case
    using Cons.IH [of m' opt' "float_add acc loss"] by (simp add: b t)
qed

lemma length_train_batch_losses:
  "length (train_batch_losses env mt bs s) = length bs"
proof (induction bs arbitrary: s)
  case Nil
  then show ?case by simp
next
  case (Cons b bs)
  obtain inputs labels where b: "b = (inputs, labels)" by (cases b)
  obtain m opt where s: "s = (m, opt)" by (cases s)
  show ?case
    using Cons.IH by (simp add: b s split: prod.splits)
qed

lemma val_batches_losses:
  "val_batches env mt m bs acc = foldl float_add acc (val_batch_losses env mt m bs)"
proof (induction bs arbitrary: acc)
  case Nil
  then show ?case by (simp add: val_batch_losses_def)
next
  case (Cons b bs)
  obtain inputs labels where b: "b = (inputs, labels)" by (cases b)
  show ?case
    using Cons.IH by (simp add: b val_batch_losses_def)
qed

lemma epoch_train_total_sum:
  "epoch_train_total env mt trl s
     = float_sum (train_batch_losses env mt trl (model_train env (fst s), snd s))"
  using train_batches_losses [of env mt trl "model_train env (fst s)" "snd s" "Fin 0"]
  by (simp add: epoch_train_total_def float_sum_def)

lemma snoc_Inr:
  fixes ys xs :: "'a list" and r :: "'e + 'a"
  assumes "map Inr ys = map Inr xs @ [r]"
  shows "butlast ys = xs" and "r = Inr (last ys)"
proof -
  from assms have len: "length ys = Suc (length xs)"
    by (metis length_append_singleton length_map)
  then have ne: "ys \<noteq> []" by auto
  then have ys: "ys = butlast ys @ [last ys]" by simp
  have "map Inr (butlast ys) @ [Inr (last ys)] = map Inr xs @ [r]"
    using assms ys by (metis list.simps(8) list.simps(9) map_append)
  then have "map (Inr :: 'a \<Rightarrow> 'e + 'a) (butlast ys) = map Inr xs" and "Inr (last ys) = r"
    by auto
  then show "butlast ys = xs" and "r = Inr (last ys)"
    by (auto simp add: inj_map_eq_map [OF inj_Inr])
qed

text \<open>
  C6: an epoch that completes appends to the training history the sum of its training
  batch losses divided by the number of training batches, and to the validation history
  the sum of its validation batch losses divided by the number of validation batches;
  the early-stopping comparison, and the new best loss, use the undivided sum of the
  validation batch losses.
\<close>

theorem epoch_records_means:
  assumes "run_epoch env mt trl vll st = Inr (st', stop)"
  defines "train_batch \<equiv> train_batch_losses env mt trl (model_train env (model st), optimizer st)"
  defines "val_batch \<equiv> val_batch_losses env mt (model st') vll"
  shows "length train_batch = length trl \<and> length val_batch = length vll
       \<and> butlast (train_losses st') = train_losses st
       \<and> float_div (float_sum train_batch) (length trl) = Inr (last (train_losses st'))
       \<and> butlast (val_losses st') = val_losses st
       \<and> float_div (float_sum val_batch) (length vll) = Inr (last (val_losses st'))
       \<and> best_val_loss st'
            = (if float_lt (float_sum val_batch) (best_val_loss st)
               then float_sum val_batch else best_val_loss st)
       \<and> epochs_without_improvement st'
            = (if float_lt (float_sum val_batch) (best_val_loss st)
               then 0 else epochs_without_improvement st + 1)"
proof -
  note r = run_epoch_Inr [OF assms(1)]
  have m: "model st' = fst (epoch_step env mt trl (model st, optimizer st))"
    using r(1) by (metis fst_conv)
  have V: "val_batches env mt (fst (epoch_step env mt trl (model st, optimizer st))) vll (Fin 0)
             = float_sum val_batch"
    by (simp add: val_batches_losses float_sum_def val_batch_def m)
  have T: "epoch_train_total env mt trl (model st, optimizer st) = float_sum train_batch"
    by (simp add: epoch_train_total_sum train_batch_def)
  note t = snoc_Inr [OF r(2) [unfolded T]]
  note v = snoc_Inr [OF r(3) [unfolded V]]
  show ?thesis
    using t v r(4,5) unfolding V
    by (simp add: train_batch_def val_batch_def length_train_batch_losses val_batch_losses_def)
qed

lemma evaluate_losses:
  assumes "(tls, vls, rest) = evaluate env mt tsl st"
  shows "tls = train_losses st" and "vls = val_losses st"
  using assms by (auto simp add: evaluate_def Let_def split: prod.splits)

lemma train_and_evaluate_Inr:
  assumes "train_and_evaluate env config mt dataset image_dim pcam = Inr r"
  obtains trl vll tsl m lr st where
    "load_and_check env config dataset pcam = Inr (trl, vll, tsl)"
    "build_model env config mt image_dim = Inr m"
    "getitem config ''learning_rate'' = Inr lr"
    "epoch_loop 25 env mt trl vll (initial_state m (Adam env m lr)) = Inr st"
    "training_phase env config mt dataset image_dim pcam = Inr (tsl, st)"
    "r = evaluate env mt tsl st"
  using assms
  by (auto simp add: train_and_evaluate_def training_phase_def split: sum.splits prod.splits)

text \<open>
  C4: the two loss sequences a completed \<open>train_and_evaluate\<close> returns have the same
  length, at most 25, and a length below 25 only when the loop ended with the strike counter
  at the patience, that is, by the \<open>break\<close> of early stopping.
\<close>

theorem loss_histories_length:
  assumes "train_and_evaluate env config mt dataset image_dim pcam
             = Inr (tls, vls, acc, f1, prec, rec, np)"
  shows "length tls = length vls \<and> length vls \<le> 25
       \<and> (length vls < 25 \<longrightarrow>
            (\<exists>tsl st. training_phase env config mt dataset image_dim pcam = Inr (tsl, st)
               \<and> train_losses st = tls \<and> val_losses st = vls
               \<and> epochs_without_improvement st = patience))"
proof -
  from assms obtain trl vll tsl m lr st where
    run: "epoch_loop 25 env mt trl vll (initial_state m (Adam env m lr)) = Inr st"
    and tp: "training_phase env config mt dataset image_dim pcam = Inr (tsl, st)"
    and r: "(tls, vls, acc, f1, prec, rec, np) = evaluate env mt tsl st"
    by (rule train_and_evaluate_Inr)
  note l = evaluate_losses [OF r]
  note e = epoch_loop_result [OF run]
  have "epochs_without_improvement st
          = strikes_after (val_total env mt trl vll (m, Adam env m lr)) (length (val_losses st))"
    using e(1) by (simp add: at_epoch_def)
  with e(5) have "length vls < 25 \<longrightarrow> epochs_without_improvement st = patience"
    by (simp add: l)
  with tp l at_epoch_lengths(1) [OF e(1)] e(3) show ?thesis
    by auto
qed

text \<open>
  C9: the metrics and the parameter count \<open>train_and_evaluate\<close> returns are those of the
  network after the last epoch that ran (as many epochs as the returned history is long),
  put in evaluation mode; the network of the epoch with the best validation loss is not
  restored.
\<close>

theorem metrics_from_last_epoch:
  assumes "load_and_check env config dataset pcam = Inr (trl, vll, tsl)"
    and "build_model env config mt image_dim = Inr m"
    and "getitem config ''learning_rate'' = Inr lr"
    and "train_and_evaluate env config mt dataset image_dim pcam
           = Inr (tls, vls, acc, f1, prec, rec, np)"
  defines "final \<equiv> model_eval env (fst (state_after (length tls) env mt trl (m, Adam env m lr)))"
  defines "tested \<equiv> test_batches env mt final tsl ([], [])"
  shows "acc = accuracy_score env (fst tested) (snd tested)
       \<and> f1 = f1_score env (fst tested) (snd tested)
       \<and> prec = precision_score env (fst tested) (snd tested)
       \<and> rec = recall_score env (fst tested) (snd tested)
       \<and> np = count_params env final"
proof -
  from assms(4) obtain trl' vll' tsl' m' lr' st where
    "load_and_check env config dataset pcam = Inr (trl', vll', tsl')"
    "build_model env config mt image_dim = Inr m'"
    "getitem config ''learning_rate'' = Inr lr'"
    and run': "epoch_loop 25 env mt trl' vll' (initial_state m' (Adam env m' lr')) = Inr st"
    and r': "(tls, vls, acc, f1, prec, rec, np) = evaluate env mt tsl' st"
    by (rule train_and_evaluate_Inr)
  with assms(1-3) have run: "epoch_loop 25 env mt trl vll (initial_state m (Adam env m lr)) = Inr st"
    and r: "(tls, vls, acc, f1, prec, rec, np) = evaluate env mt tsl st"
    by simp_all
  note l = evaluate_losses [OF r]
  note e = epoch_loop_result [OF run]
  have "length tls = length (val_losses st)"
    using at_epoch_lengths(1) [OF e(1)] l by simp
  with e(1) have "(model st, optimizer st) = state_after (length tls) env mt trl (m, Adam env m lr)"
    by (simp add: at_epoch_def)
  then have "model st = fst (state_after (length tls) env mt trl (m, Adam env m lr))"
    by (metis fst_conv)
  then have f: "model_eval env (model st) = final"
    by (simp add: final_def)
  show ?thesis
    using r unfolding evaluate_def Let_def f tested_def
    by (simp split: prod.splits)
qed

text \<open>
  C10: when the cumulative validation loss of every epoch that ran is finite, the returned
  loss sequences have at least 6 and at most 25 entries.
\<close>

theorem finite_losses_six_epochs:
  assumes "load_and_check env config dataset pcam = Inr (trl, vll, tsl)"
    and "build_model env config mt image_dim = Inr m"
    and "getitem config ''learning_rate'' = Inr lr"
    and "train_and_evaluate env config mt dataset image_dim pcam
           = Inr (tls, vls, acc, f1, prec, rec, np)"
    and "\<forall>j < length vls. is_finite (val_total env mt trl vll (m, Adam env m lr) j)"
  shows "6 \<le> length tls \<and> length tls \<le> 25 \<and> length vls = length tls"
proof -
  from assms(4) obtain trl' vll' tsl' m' lr' st where
    "load_and_check env config dataset pcam = Inr (trl', vll', tsl')"
    "build_model env config mt image_dim = Inr m'"
    "getitem config ''learning_rate'' = Inr lr'"
    and run': "epoch_loop 25 env mt trl' vll' (initial_state m' (Adam env m' lr')) = Inr st"
    and r': "(tls, vls, acc, f1, prec, rec, np) = evaluate env mt tsl' st"
    by (rule train_and_evaluate_Inr)
  with assms(1-3) have run: "epoch_loop 25 env mt trl vll (initial_state m (Adam env m lr)) = Inr st"
    and r: "(tls, vls, acc, f1, prec, rec, np) = evaluate env mt tsl st"
    by simp_all
  note l = evaluate_losses [OF r]
  let ?f = "val_total env mt trl vll (m, Adam env m lr)"
  let ?k = "length (val_losses st)"
  note e = epoch_loop_result [OF run]
  have len: "length tls = ?k"
    using at_epoch_lengths(1) [OF e(1)] l by simp
  have first: "float_lt (?f 0) (best_after ?f 0)"
  proof -
    from assms(5) e(2) l have "is_finite (?f 0)" by simp
    then show ?thesis by (cases "?f 0") simp_all
  qed
  have "6 \<le> ?k"
  proof (rule ccontr)
    assume "\<not> 6 \<le> ?k"
    then have lt: "?k < 6" by simp
    with e(5) have "patience \<le> strikes_after ?f ?k" by simp
    then have five: "5 \<le> ?k" and fails: "\<forall>j \<in> {?k - 5..<?k}. fails_to_improve ?f j"
      unfolding strikes_after_ge patience_def by simp_all
    from five lt have "?k = 5" by simp
    with fails have "fails_to_improve ?f 0" by simp
    with first show False by (simp add: fails_to_improve_def)
  qed
  with len e(3) l show ?thesis by simp
qed

lemma five_failures_strikes: "five_failures f e = (5 \<le> strikes_after f e)"
  unfolding five_failures_def strikes_after_ge ..

text \<open>
  C2, as the code has it: the loop ends by early stopping if and only if, within the 25
  epochs, five consecutive epochs fail to strictly improve the best cumulative validation
  loss seen before them; it then ends at the first epoch that completes such a run of five.
  For the sequence 10, 9, 9, 9, 9, 9, 5 the counter stands at 4 after epoch 6, since epoch 2
  improves on epoch 1, so the rule stops neither at epoch 6 nor at epoch 7.
\<close>

theorem early_stopping_iff_five_failures:
  assumes "epoch_loop 25 env mt trl vll (initial_state m opt) = Inr st"
  defines "f \<equiv> val_total env mt trl vll (m, opt)"
  defines "k \<equiv> length (val_losses st)"
  shows "(patience \<le> epochs_without_improvement st) = (\<exists>e\<le>25. five_failures f e)
       \<and> (patience \<le> epochs_without_improvement st \<longrightarrow>
            five_failures f k \<and> (\<forall>e<k. \<not> five_failures f e))
       \<and> strikes_after synthetic 6 = 4
       \<and> \<not> five_failures synthetic 6
       \<and> \<not> five_failures synthetic 7"
proof -
  note r = epoch_loop_result [OF assms(1), folded f_def k_def]
  have c: "epochs_without_improvement st = strikes_after f k"
    using r(1) by (simp add: at_epoch_def f_def)
  have before: "\<forall>e<k. \<not> five_failures f e"
    using r(4) by (auto simp add: five_failures_strikes patience_def)
  have 1: "(patience \<le> epochs_without_improvement st) = (\<exists>e\<le>25. five_failures f e)"
  proof
    assume "patience \<le> epochs_without_improvement st"
    then have "five_failures f k"
      by (simp add: c five_failures_strikes patience_def)
    with r(3) show "\<exists>e\<le>25. five_failures f e" by blast
  next
    assume "\<exists>e\<le>25. five_failures f e"
    then obtain e where e: "e \<le> 25" "five_failures f e" by blast
    with before have ke: "k \<le> e" by (meson not_le)
    show "patience \<le> epochs_without_improvement st"
    proof (cases "k < 25")
      case True
      with r(5) c show ?thesis by simp
    next
      case False
      with ke e(1) have "e = k" by simp
      with e(2) show ?thesis
        by (simp add: c five_failures_strikes patience_def)
    qed
  qed
  have 2: "patience \<le> epochs_without_improvement st \<longrightarrow>
            five_failures f k \<and> (\<forall>e<k. \<not> five_failures f e)"
    using before by (simp add: c five_failures_strikes patience_def)
  have s6: "strikes_after synthetic 6 = 4"
    by code_simp
  have s7: "strikes_after synthetic 7 = 0"
    by code_simp
  from s6 s7 have 3: "\<not> five_failures synthetic 6" and 4: "\<not> five_failures synthetic 7"
    by (simp_all add: five_failures_strikes)
  from 1 2 s6 3 4 show ?thesis by blast
qed

text \<open>
  A run whose validation losses follow the synthetic sequence does not stop at epoch 6:
  it runs 12 epochs.
\<close>

theorem synthetic_sequence_counterexample:
  "train_and_evaluate (demo None None None None (\<lambda>m. synthetic (m - 1)))
      demo_config ''MLP'' ''MNIST'' 28 None
     = Inr ([Fin 1, Fin 1, Fin 1, Fin 1, Fin 1, Fin 1, Fin 1, Fin 1, Fin 1, Fin 1, Fin 1, Fin 1],
            [Fin 10, Fin 9, Fin 9, Fin 9, Fin 9, Fin 9, Fin 5, Fin 5, Fin 5, Fin 5, Fin 5, Fin 5],
            Fin 12, Fin 0, Fin 0, Fin 0, 7)"
  by code_simp

theorem early_stopping_iff_five_failures_witness:
  "five_failures (val_total (demo None None None None (\<lambda>m. Fin 3)) ''MLP'' [(0, 0)] [(0, 0)] (0, ())) 6"
proof -
  have run: "epoch_loop 25 (demo None None None None (\<lambda>m. Fin 3)) ''MLP'' [(0, 0)] [(0, 0)]
               (initial_state 0 ())
             = Inr \<lparr>model = 6, optimizer = (),
                    train_losses = [Fin 1, Fin 1, Fin 1, Fin 1, Fin 1, Fin 1],
                    val_losses = [Fin 3, Fin 3, Fin 3, Fin 3, Fin 3, Fin 3],
                    best_val_loss = Fin 3, epochs_without_improvement = 5\<rparr>"
    by code_simp
  have len: "length (val_losses \<lparr>model = 6 :: nat, optimizer = (),
                    train_losses = [Fin 1, Fin 1, Fin 1, Fin 1, Fin 1, Fin 1],
                    val_losses = [Fin 3, Fin 3, Fin 3, Fin 3, Fin 3, Fin 3],
                    best_val_loss = Fin 3, epochs_without_improvement = 5\<rparr>) = 6"
    by simp
  show ?thesis
    using early_stopping_iff_five_failures [OF run, unfolded len] by (simp add: patience_def)
qed

theorem early_stopping_algorithm_witness:
  "strikes_after (val_total (demo None None None None (\<lambda>m. Fin 3)) ''MLP'' [(0, 0)] [(0, 0)] (0, ())) 6 = 5
   \<and> best_after (val_total (demo None None None None (\<lambda>m. Fin 3)) ''MLP'' [(0, 0)] [(0, 0)] (0, ())) 6
       = Fin 3"
proof -
  have run: "epoch_loop 25 (demo None None None None (\<lambda>m. Fin 3)) ''MLP'' [(0, 0)] [(0, 0)]
               (initial_state 0 ())
             = Inr \<lparr>model = 6, optimizer = (),
                    train_losses = [Fin 1, Fin 1, Fin 1, Fin 1, Fin 1, Fin 1],
                    val_losses = [Fin 3, Fin 3, Fin 3, Fin 3, Fin 3, Fin 3],
                    best_val_loss = Fin 3, epochs_without_improvement = 5\<rparr>"
    by code_simp
  have len: "length (val_losses \<lparr>model = 6 :: nat, optimizer = (),
                    train_losses = [Fin 1, Fin 1, Fin 1, Fin 1, Fin 1, Fin 1],
                    val_losses = [Fin 3, Fin 3, Fin 3, Fin 3, Fin 3, Fin 3],
                    best_val_loss = Fin 3, epochs_without_improvement = 5\<rparr>) = 6"
    by simp
  show ?thesis
    using early_stopping_algorithm [OF run, unfolded len]
    by (simp del: strikes_after.simps best_after.simps)
qed

theorem epoch_records_means_witness:
  "float_div (float_sum (train_batch_losses (demo None None None None (\<lambda>m. Fin 3)) ''MLP''
       [(0, 0), (1, 1)] (0, ()))) 2 = Inr (Fin 1)
   \<and> float_div (float_sum (val_batch_losses (demo None None None None (\<lambda>m. Fin 3)) ''MLP'' 2
       [(0, 0), (1, 1)])) 2 = Inr (Fin 3)
   \<and> float_sum (val_batch_losses (demo None None None None (\<lambda>m. Fin 3)) ''MLP'' 2
       [(0, 0), (1, 1)]) = Fin 6"
proof -
  have run: "run_epoch (demo None None None None (\<lambda>m. Fin 3)) ''MLP'' [(0, 0), (1, 1)] [(0, 0), (1, 1)]
               (initial_state 0 ())
             = Inr (\<lparr>model = 2, optimizer = (), train_losses = [Fin 1], val_losses = [Fin 3],
                     best_val_loss = Fin 6, epochs_without_improvement = 0\<rparr>, False)"
    by code_simp
  have mt: "model_train (demo None None None None (\<lambda>m. Fin 3)) 0 = 0"
    by (simp add: demo_def)
  have lt: "float_lt (float_sum (val_batch_losses (demo None None None None (\<lambda>m. Fin 3)) ''MLP'' 2
       [(0, 0), (1, 1)])) PInf"
    by code_simp
  show ?thesis
    using epoch_records_means [OF run] lt
    by (simp add: initial_state_def mt numeral_2_eq_2 del: train_batch_losses.simps)
qed

theorem loss_histories_length_witness:
  "\<exists>tsl st. training_phase (demo None None None None (\<lambda>m. Fin 3)) demo_config ''MLP'' ''MNIST'' 28 None
       = Inr (tsl, st)
     \<and> train_losses st = [Fin 1, Fin 1, Fin 1, Fin 1, Fin 1, Fin 1]
     \<and> val_losses st = [Fin 3, Fin 3, Fin 3, Fin 3, Fin 3, Fin 3]
     \<and> epochs_without_improvement st = patience"
proof -
  have run: "train_and_evaluate (demo None None None None (\<lambda>m. Fin 3)) demo_config ''MLP'' ''MNIST'' 28 None
     = Inr ([Fin 1, Fin 1, Fin 1, Fin 1, Fin 1, Fin 1],
            [Fin 3, Fin 3, Fin 3, Fin 3, Fin 3, Fin 3], Fin 6, Fin 0, Fin 0, Fin 0, 7)"
    by code_simp
  show ?thesis
    using loss_histories_length [OF run] by simp
qed

theorem metrics_from_last_epoch_witness:
  "Fin 6 = accuracy_score (demo None None None None (\<lambda>m. Fin 3))
      (fst (test_batches (demo None None None None (\<lambda>m. Fin 3)) ''MLP''
         (model_eval (demo None None None None (\<lambda>m. Fin 3))
            (fst (state_after 6 (demo None None None None (\<lambda>m. Fin 3)) ''MLP'' [(0, 0)] (0, ()))))
         [(0, 0)] ([], [])))
      (snd (test_batches (demo None None None None (\<lambda>m. Fin 3)) ''MLP''
         (model_eval (demo None None None None (\<lambda>m. Fin 3))
            (fst (state_after 6 (demo None None None None (\<lambda>m. Fin 3)) ''MLP'' [(0, 0)] (0, ()))))
         [(0, 0)] ([], [])))"
proof -
  have l: "load_and_check (demo None None None None (\<lambda>m. Fin 3)) demo_config ''MNIST'' None
             = Inr ([(0, 0)], [(0, 0)], [(0, 0)])"
    by code_simp
  have b: "build_model (demo None None None None (\<lambda>m. Fin 3)) demo_config ''MLP'' 28 = Inr 0"
    by code_simp
  have g: "getitem demo_config ''learning_rate'' = Inr (PyFloat (Fin (1 / 1000)))"
    by code_simp
  have run: "train_and_evaluate (demo None None None None (\<lambda>m. Fin 3)) demo_config ''MLP'' ''MNIST'' 28 None
     = Inr ([Fin 1, Fin 1, Fin 1, Fin 1, Fin 1, Fin 1],
            [Fin 3, Fin 3, Fin 3, Fin 3, Fin 3, Fin 3], Fin 6, Fin 0, Fin 0, Fin 0, 7)"
    by code_simp
  have a: "Adam (demo None None None None (\<lambda>m. Fin 3)) 0 (PyFloat (Fin (1 / 1000))) = ()"
    by simp
  have len: "length [Fin 1, Fin 1, Fin 1, Fin 1, Fin 1, Fin (1 :: real)] = 6"
    by simp
  show ?thesis
    by (rule metrics_from_last_epoch [OF l b g run, unfolded a len, THEN conjunct1])
qed

theorem finite_losses_six_epochs_witness:
  "6 \<le> length [Fin 1, Fin 1, Fin 1, Fin 1, Fin 1, Fin (1 :: real)]"
proof -
  have l: "load_and_check (demo None None None None (\<lambda>m. Fin 3)) demo_config ''MNIST'' None
             = Inr ([(0, 0)], [(0, 0)], [(0, 0)])"
    by code_simp
  have b: "build_model (demo None None None None (\<lambda>m. Fin 3)) demo_config ''MLP'' 28 = Inr 0"
    by code_simp
  have g: "getitem demo_config ''learning_rate'' = Inr (PyFloat (Fin (1 / 1000)))"
    by code_simp
  have run: "train_and_evaluate (demo None None None None (\<lambda>m. Fin 3)) demo_config ''MLP'' ''MNIST'' 28 None
     = Inr ([Fin 1, Fin 1, Fin 1, Fin 1, Fin 1, Fin 1],
            [Fin 3, Fin 3, Fin 3, Fin 3, Fin 3, Fin 3], Fin 6, Fin 0, Fin 0, Fin 0, 7)"
    by code_simp
  have fin: "\<forall>j < length [Fin 3, Fin 3, Fin 3, Fin 3, Fin 3, Fin (3 :: real)].
      is_finite (val_total (demo None None None None (\<lambda>m. Fin 3)) ''MLP'' [(0, 0)] [(0, 0)]
         (0, Adam (demo None None None None (\<lambda>m. Fin 3)) 0 (PyFloat (Fin (1 / 1000)))) j)"
    by (simp add: val_total_def demo_def prepare_inputs_def)
  show ?thesis
    using finite_losses_six_epochs [OF l b g run fin] by simp
qed

section \<open>Properties of \<open>main_train\<close>\<close>

lemma str_nat_decode:
  "foldl (\<lambda>a c. 10 * a + (of_char c - 48)) 0 (str_nat n) = n"
proof (induction n rule: str_nat.induct)
  case (1 n)
  show ?case
  proof (cases "n < 10")
    case True
    then show ?thesis
      by (subst str_nat.simps) simp
  next
    case False
    have "n mod 10 < 10" by simp
    then have d: "of_char (char_of (48 + n mod 10)) = 48 + n mod 10"
      by (simp add: of_char_of)
    from False 1 show ?thesis
      by (subst str_nat.simps) (simp add: d)
  qed
qed

lemma str_nat_inj: "str_nat m = str_nat n \<Longrightarrow> m = n"
  by (metis str_nat_decode)

lemma model_key_inj: "''model_'' @ str_nat m = ''model_'' @ str_nat n \<Longrightarrow> m = n"
  using str_nat_inj by simp
























end
